theory Spec2Isabelle
  imports Complex_Main
begin

section \<open>The Local Event Bus (src/lib/txEvents.ts)\<close>

text \<open>
  \<^verbatim>\<open>const listeners = new Set<TxEvent<any>>()\<close> is a set of function objects. A
  JavaScript \<^verbatim>\<open>Set\<close> iterates in insertion order and holds every element once, so it is
  a list without duplicates, newest last. A callback is known by its identity
  (\<open>cb_id\<close>); what it does when invoked is given by a table of handlers: the callback
  reads the payload and then performs a sequence of effects, among them throwing and
  registering or removing listeners while a publish is under way. Every callback
  returns or throws; one that publishes again from inside a publish is not modelled.
\<close>

type_synonym cb_id = nat

datatype effect = Throw | AddListener cb_id | DeleteListener cb_id

type_synonym 'p handlers = "cb_id \<Rightarrow> 'p \<Rightarrow> effect list"

text \<open>
  \<open>calls\<close> is the observation log: every invocation \<^verbatim>\<open>cb(tx)\<close>, in the order it
  happened.
\<close>

record 'p bus =
  listeners :: "cb_id list"
  calls :: "(cb_id \<times> 'p) list"

definition empty_bus :: "'p bus" where
  "empty_bus = \<lparr>listeners = [], calls = []\<rparr>"

text \<open>\<^verbatim>\<open>Set.prototype.add\<close>: an element already present keeps its place.\<close>

definition set_add :: "cb_id \<Rightarrow> cb_id list \<Rightarrow> cb_id list" where
  "set_add cb ls = (if cb \<in> set ls then ls else ls @ [cb])"

text \<open>\<^verbatim>\<open>Set.prototype.delete\<close>.\<close>

definition set_delete :: "cb_id \<Rightarrow> cb_id list \<Rightarrow> cb_id list" where
  "set_delete cb ls = removeAll cb ls"

text \<open>
  \<^verbatim>\<open>
  export function addTransactionListener<T>(cb: TxEvent<T>) {
    listeners.add(cb);
    return () => listeners.delete(cb as any);
  }
  \<close>
  The result is the unsubscribe closure and the new state.
\<close>

definition addTransactionListener ::
  "cb_id \<Rightarrow> 'p bus \<Rightarrow> ('p bus \<Rightarrow> 'p bus) \<times> 'p bus" where
  "addTransactionListener cb s =
     ((\<lambda>s'. s'\<lparr>listeners := set_delete cb (listeners s')\<rparr>),
      s\<lparr>listeners := set_add cb (listeners s)\<rparr>)"

text \<open>
  Running the body of a callback: the effects in order; \<open>Throw\<close> abandons the rest.
  The result says whether the body threw.
\<close>

fun run_body :: "effect list \<Rightarrow> cb_id list \<Rightarrow> bool \<times> cb_id list" where
  "run_body [] ls = (False, ls)"
| "run_body (Throw # es) ls = (True, ls)"
| "run_body (AddListener c # es) ls = run_body es (set_add c ls)"
| "run_body (DeleteListener c # es) ls = run_body es (set_delete c ls)"

text \<open>The call \<^verbatim>\<open>cb(tx)\<close>: logged, then the body runs.\<close>

definition invoke :: "'p handlers \<Rightarrow> cb_id \<Rightarrow> 'p \<Rightarrow> 'p bus \<Rightarrow> bool \<times> 'p bus" where
  "invoke h cb tx s =
     (let (threw, ls) = run_body (h cb tx) (listeners s)
      in (threw, \<lparr>listeners = ls, calls = calls s @ [(cb, tx)]\<rparr>))"

text \<open>
  \<^verbatim>\<open>
  export function emitTransaction<T>(tx: T) {
    for (const cb of Array.from(listeners)) {
      try { cb(tx); } catch {}
    }
  }
  \<close>
  \<open>deliver\<close> is the loop over the array copied from the set; the \<^verbatim>\<open>catch {}\<close>
  drops the exception, so the loop continues in either case.
\<close>

fun deliver :: "'p handlers \<Rightarrow> 'p \<Rightarrow> cb_id list \<Rightarrow> 'p bus \<Rightarrow> 'p bus" where
  "deliver h tx [] s = s"
| "deliver h tx (cb # rest) s =
     (case invoke h cb tx s of
        (True, s') \<Rightarrow> deliver h tx rest s'
      | (False, s') \<Rightarrow> deliver h tx rest s')"

definition emitTransaction :: "'p handlers \<Rightarrow> 'p \<Rightarrow> 'p bus \<Rightarrow> 'p bus" where
  "emitTransaction h tx s = deliver h tx (listeners s) s"

text \<open>Registering a list of callbacks one after the other.\<close>

fun register_all :: "cb_id list \<Rightarrow> 'p bus \<Rightarrow> 'p bus" where
  "register_all [] s = s"
| "register_all (cb # cbs) s = register_all cbs (snd (addTransactionListener cb s))"

text \<open>The invocations a publish added to the log.\<close>

definition new_calls :: "'p bus \<Rightarrow> 'p bus \<Rightarrow> (cb_id \<times> 'p) list" where
  "new_calls s s' = drop (length (calls s)) (calls s')"

section \<open>Transactions (src/lib/transactions.ts)\<close>

datatype TransactionStatus = pending | rejected | paid

text \<open>
  The ISO-8601 strings of the source (\<^verbatim>\<open>created_at\<close>, \<^verbatim>\<open>new Date().toISOString()\<close>) stand
  for instants and the gateway orders rows by them as instants; they are modelled by the
  instant itself. \<^verbatim>\<open>number\<close> is only stored and copied, never computed with.
\<close>

type_synonym timestamp = nat

record Transaction =
  id' :: string
  user_id :: string
  offer_id :: "string option"
  offer_title :: "string option"
  offer_icon_url :: "string option"
  amount :: "real option"
  status :: TransactionStatus
  proof_url :: "string option"
  notes' :: "string option"
  reviewed_by :: "string option"
  reviewed_at :: "timestamp option"
  created_at :: timestamp
  updated_at :: timestamp

definition mapRow :: "Transaction \<Rightarrow> Transaction" where
  "mapRow r =
     \<lparr>id' = id' r, user_id = user_id r, offer_id = offer_id r,
      offer_title = offer_title r, offer_icon_url = offer_icon_url r, amount = amount r,
      status = status r, proof_url = proof_url r, notes' = notes' r,
      reviewed_by = reviewed_by r, reviewed_at = reviewed_at r,
      created_at = created_at r, updated_at = updated_at r\<rparr>"

text \<open>\<^verbatim>\<open>a ?? b\<close>: \<open>None\<close> is \<^verbatim>\<open>undefined\<close> or \<^verbatim>\<open>null\<close>.\<close>

definition nullish :: "'a option \<Rightarrow> 'a option \<Rightarrow> 'a option" where
  "nullish a b = (case a of Some x \<Rightarrow> Some x | None \<Rightarrow> b)"

text \<open>
  An object passed to \<^verbatim>\<open>update\<close>: a column is absent (\<open>None\<close>) or set to a value, which
  for a nullable column may be \<^verbatim>\<open>null\<close> (\<open>Some None\<close>).
\<close>

record Patch =
  set_status :: "TransactionStatus option"
  set_offer_title :: "string option option"
  set_offer_icon_url :: "string option option"
  set_amount :: "real option option"
  set_notes :: "string option option"
  set_reviewed_by :: "string option option"
  set_reviewed_at :: "timestamp option option"

text \<open>The spread \<^verbatim>\<open>{ ...row, ...patch }\<close>, and what an update writes into a row.\<close>

definition apply_patch :: "Patch \<Rightarrow> Transaction \<Rightarrow> Transaction" where
  "apply_patch p r =
     r\<lparr>status := (case set_status p of None \<Rightarrow> status r | Some v \<Rightarrow> v),
       offer_title := (case set_offer_title p of None \<Rightarrow> offer_title r | Some v \<Rightarrow> v),
       offer_icon_url :=
         (case set_offer_icon_url p of None \<Rightarrow> offer_icon_url r | Some v \<Rightarrow> v),
       amount := (case set_amount p of None \<Rightarrow> amount r | Some v \<Rightarrow> v),
       notes' := (case set_notes p of None \<Rightarrow> notes' r | Some v \<Rightarrow> v),
       reviewed_by := (case set_reviewed_by p of None \<Rightarrow> reviewed_by r | Some v \<Rightarrow> v),
       reviewed_at := (case set_reviewed_at p of None \<Rightarrow> reviewed_at r | Some v \<Rightarrow> v)\<rparr>"

text \<open>The object passed to \<^verbatim>\<open>insert\<close> by \<^verbatim>\<open>createPendingTransaction\<close>.\<close>

record Payload =
  new_user_id :: string
  new_offer_id :: "string option"
  new_offer_title :: "string option"
  new_offer_icon_url :: "string option"
  new_amount :: "real option"
  new_status :: TransactionStatus
  new_proof_url :: "string option"

text \<open>The third argument of \<^verbatim>\<open>updateTransactionStatus\<close>; \<open>None\<close> is \<^verbatim>\<open>undefined\<close>.\<close>

record Options =
  opt_notes :: "string option option"
  opt_reviewed_by :: "string option option"
  opt_reviewed_at :: "timestamp option option"

subsection \<open>The Remote Data Gateway\<close>

text \<open>
  What a call can fail with: an error object of the gateway, the error of
  \<^verbatim>\<open>.single()\<close>, or a \<^verbatim>\<open>TypeError\<close> of the client.
\<close>

datatype failure = GatewayError string | NotSingleRow | TypeError

text \<open>The \<^verbatim>\<open>{ data, error }\<close> a query resolves to.\<close>

record 'a reply =
  data :: "'a option"
  error :: "failure option"

text \<open>
  What the remote side does with one request: it serves it, it fails it (nothing is
  written), or it carries it out and its row-level security returns no row.
\<close>

datatype fault = Healthy | Failing string | Hidden

text \<open>
  The surroundings of one call: the outcome of its read and of its write, the id and the
  time the gateway gives an inserted or updated row, and the client's clock (the value
  of the n-th \<^verbatim>\<open>new Date()\<close> of the call).
\<close>

record env =
  find_fault :: fault
  write_fault :: fault
  new_id :: string
  db_now :: timestamp
  client_clock :: "nat \<Rightarrow> timestamp"

text \<open>\<^verbatim>\<open>.order('created_at', { ascending: false })\<close>\<close>

definition newest_first :: "Transaction list \<Rightarrow> Transaction list" where
  "newest_first rows = rev (sort_key created_at rows)"

text \<open>\<^verbatim>\<open>.limit(n)\<close>\<close>

definition limit :: "nat \<Rightarrow> 'a list reply \<Rightarrow> 'a list reply" where
  "limit n rp = rp\<lparr>data := map_option (take n) (data rp)\<rparr>"

text \<open>
  Modelled from the spec: the hosted table \<^verbatim>\<open>transactions\<close> is not in the repository.
  Filtered select with equality, not-equality and ordering:
  \<^verbatim>\<open>select('*').eq('user_id', u).eq('offer_id', o).neq('status', 'paid').order(...)\<close>.
\<close>

definition gw_select_active ::
  "fault \<Rightarrow> string \<Rightarrow> string \<Rightarrow> Transaction list \<Rightarrow> Transaction list reply" where
  "gw_select_active f u oid rows =
     (case f of
        Failing m \<Rightarrow> \<lparr>data = None, error = Some (GatewayError m)\<rparr>
      | Hidden \<Rightarrow> \<lparr>data = Some [], error = None\<rparr>
      | Healthy \<Rightarrow>
          \<lparr>data = Some (newest_first
             (filter (\<lambda>r. user_id r = u \<and> offer_id r = Some oid \<and> status r \<noteq> paid) rows)),
           error = None\<rparr>)"

text \<open>
  Modelled from the spec: what an update of the rows with id \<open>i\<close> does to one row of
  the hosted table. A row with that id takes the patch and the time of the write (the
  database trigger the source relies on for \<^verbatim>\<open>updated_at\<close>); any other row is left as
  it is.
\<close>

definition write_row :: "timestamp \<Rightarrow> Patch \<Rightarrow> string \<Rightarrow> Transaction \<Rightarrow> Transaction" where
  "write_row now p i r = (if id' r = i then (apply_patch p r)\<lparr>updated_at := now\<rparr> else r)"

text \<open>
  Modelled from the spec: update-by-filter with return-row,
  \<^verbatim>\<open>update(patch).eq('id', i).select('*')\<close>, on the hosted table. The rows written are
  returned unless hidden.
\<close>

definition gw_update ::
  "fault \<Rightarrow> timestamp \<Rightarrow> Patch \<Rightarrow> string \<Rightarrow> Transaction list \<Rightarrow>
   Transaction list reply \<times> Transaction list" where
  "gw_update f now p i rows =
     (case f of
        Failing m \<Rightarrow> (\<lparr>data = None, error = Some (GatewayError m)\<rparr>, rows)
      | Hidden \<Rightarrow> (\<lparr>data = Some [], error = None\<rparr>, map (write_row now p i) rows)
      | Healthy \<Rightarrow>
          (\<lparr>data = Some (filter (\<lambda>r. id' r = i) (map (write_row now p i) rows)),
            error = None\<rparr>,
           map (write_row now p i) rows))"

text \<open>
  Modelled from the spec: insert with return-row, \<^verbatim>\<open>insert(payload).select('*')\<close>. The
  gateway assigns the id, which is unique (a row whose id is taken is refused), and the
  creation time; the columns the payload does not name are \<^verbatim>\<open>null\<close>.
\<close>

definition gw_insert ::
  "fault \<Rightarrow> string \<Rightarrow> timestamp \<Rightarrow> Payload \<Rightarrow> Transaction list \<Rightarrow>
   Transaction list reply \<times> Transaction list" where
  "gw_insert f i now p rows =
     (let row = \<lparr>id' = i, user_id = new_user_id p, offer_id = new_offer_id p,
                 offer_title = new_offer_title p, offer_icon_url = new_offer_icon_url p,
                 amount = new_amount p, status = new_status p,
                 proof_url = new_proof_url p, notes' = None, reviewed_by = None,
                 reviewed_at = None, created_at = now, updated_at = now\<rparr>
      in case f of
           Failing m \<Rightarrow> (\<lparr>data = None, error = Some (GatewayError m)\<rparr>, rows)
         | Hidden \<Rightarrow>
             (if i \<in> set (map id' rows)
              then (\<lparr>data = None, error = Some (GatewayError ''duplicate key'')\<rparr>, rows)
              else (\<lparr>data = Some [], error = None\<rparr>, rows @ [row]))
         | Healthy \<Rightarrow>
             (if i \<in> set (map id' rows)
              then (\<lparr>data = None, error = Some (GatewayError ''duplicate key'')\<rparr>, rows)
              else (\<lparr>data = Some [row], error = None\<rparr>, rows @ [row])))"

text \<open>
  Modelled from the spec: the single-row-expected read-back \<^verbatim>\<open>.single()\<close>. Anything but
  exactly one row is an error.
\<close>

definition single :: "'a list reply \<Rightarrow> 'a reply" where
  "single rp =
     (case error rp of
        Some e \<Rightarrow> \<lparr>data = None, error = Some e\<rparr>
      | None \<Rightarrow>
          (case data rp of
             Some [r] \<Rightarrow> \<lparr>data = Some r, error = None\<rparr>
           | _ \<Rightarrow> \<lparr>data = None, error = Some NotSingleRow\<rparr>))"

text \<open>\<^verbatim>\<open>(data as any[] | null)?.[0]\<close>\<close>

definition first_row :: "'a list option \<Rightarrow> 'a option" where
  "first_row d = (case d of None \<Rightarrow> None | Some [] \<Rightarrow> None | Some (r # _) \<Rightarrow> Some r)"

subsection \<open>The Transaction Lifecycle Manager\<close>

text \<open>The state the functions act on: the gateway's table and the event bus.\<close>

record world =
  transactions :: "Transaction list"
  bus :: "Transaction bus"

text \<open>\<^verbatim>\<open>emitTransaction(tx); return tx;\<close>\<close>

definition emit_and_return ::
  "Transaction handlers \<Rightarrow> Transaction \<Rightarrow> world \<Rightarrow> (failure + Transaction) \<times> world" where
  "emit_and_return h tx w = (Inr tx, w\<lparr>bus := emitTransaction h tx (bus w)\<rparr>)"

text \<open>
  \<^verbatim>\<open>
  export async function createPendingTransaction(input) {
    const payload = { user_id: input.userId, offer_id: input.offerId ?? null, ...,
                      status: 'pending', proof_url: input.proofUrl ?? null };
    const { data, error } = await supabase.from('transactions').insert(payload)
                                          .select('*').limit(1);
    if (error) throw error;
    const row = (data as any[] | null)?.[0];
    if (!row) {
      const tx = mapRow({ id: 'unknown', user_id: payload.user_id, ...,
        notes: null, reviewed_by: null, reviewed_at: null,
        created_at: new Date().toISOString(), updated_at: new Date().toISOString() });
      emitTransaction(tx);
      return tx;
    }
    const tx = mapRow(row);
    emitTransaction(tx);
    return tx;
  }
  \<close>
  The fields of \<^verbatim>\<open>input\<close> are the arguments, in the order of its type. A rejected promise
  is \<open>Inl\<close>.
\<close>

definition createPendingTransaction ::
  "Transaction handlers \<Rightarrow> env \<Rightarrow> string \<Rightarrow> string option \<Rightarrow> string option \<Rightarrow>
   string option \<Rightarrow> real option \<Rightarrow> string option \<Rightarrow> world \<Rightarrow>
   (failure + Transaction) \<times> world" where
  "createPendingTransaction h e userId offerId offerTitle offerIconUrl amount_in proofUrl w =
     (let payload = \<lparr>new_user_id = userId, new_offer_id = nullish offerId None,
                     new_offer_title = nullish offerTitle None,
                     new_offer_icon_url = nullish offerIconUrl None,
                     new_amount = nullish amount_in None, new_status = pending,
                     new_proof_url = nullish proofUrl None\<rparr>;
          (rp, rows') = gw_insert (write_fault e) (new_id e) (db_now e) payload (transactions w);
          rp1 = limit 1 rp;
          w1 = w\<lparr>transactions := rows'\<rparr>
      in case error rp1 of
           Some err \<Rightarrow> (Inl err, w1)
         | None \<Rightarrow>
             (case first_row (data rp1) of
                None \<Rightarrow>
                  emit_and_return h
                    (mapRow \<lparr>id' = ''unknown'', user_id = new_user_id payload,
                       offer_id = new_offer_id payload,
                       offer_title = new_offer_title payload,
                       offer_icon_url = new_offer_icon_url payload,
                       amount = new_amount payload, status = new_status payload,
                       proof_url = new_proof_url payload, notes' = None,
                       reviewed_by = None, reviewed_at = None,
                       created_at = client_clock e 0, updated_at = client_clock e 1\<rparr>) w1
              | Some row \<Rightarrow> emit_and_return h (mapRow row) w1))"

text \<open>
  \<^verbatim>\<open>
  export async function createOrReuseActiveTransaction(input) {
    const { data: existingRows, error: findErr } = await supabase.from('transactions')
      .select('*').eq('user_id', input.userId).eq('offer_id', input.offerId)
      .neq('status', 'paid').order('created_at', { ascending: false }).limit(1);
    if (findErr) throw findErr;
    const existing = (existingRows as any[] | null)?.[0];
    if (existing) {
      const id = (existing as any).id as string;
      const patch: any = {
        status: 'pending',
        offer_title: input.offerTitle ?? (existing as any).offer_title ?? null,
        offer_icon_url: input.offerIconUrl ?? (existing as any).offer_icon_url ?? null,
        amount: input.amount ?? (existing as any).amount ?? null,
        reviewed_at: null,
        reviewed_by: null,
      };
      const { data, error } = await supabase.from('transactions').update(patch)
        .eq('id', id).select('*').limit(1);
      if (error) throw error;
      const row = (data as any[] | null)?.[0];
      if (!row) {
        const tx = mapRow({ ...existing, ...patch, id });
        emitTransaction(tx);
        return tx;
      }
      const tx = mapRow(row);
      emitTransaction(tx);
      return tx;
    }
    return await createPendingTransaction({ userId: input.userId, offerId: input.offerId,
      offerTitle: input.offerTitle, offerIconUrl: input.offerIconUrl, amount: input.amount });
  }
  \<close>
\<close>

text \<open>
  The \<^verbatim>\<open>patch\<close> of the reuse branch; \<^verbatim>\<open>notes\<close> is not among its keys.
\<close>

definition reuse_patch ::
  "string option \<Rightarrow> string option \<Rightarrow> real option \<Rightarrow> Transaction \<Rightarrow> Patch" where
  "reuse_patch offerTitle offerIconUrl amount_in existing =
     \<lparr>set_status = Some pending,
      set_offer_title = Some (nullish (nullish offerTitle (offer_title existing)) None),
      set_offer_icon_url =
        Some (nullish (nullish offerIconUrl (offer_icon_url existing)) None),
      set_amount = Some (nullish (nullish amount_in (amount existing)) None),
      set_notes = None,
      set_reviewed_by = Some None,
      set_reviewed_at = Some None\<rparr>"

definition createOrReuseActiveTransaction ::
  "Transaction handlers \<Rightarrow> env \<Rightarrow> string \<Rightarrow> string \<Rightarrow> string option \<Rightarrow>
   string option \<Rightarrow> real option \<Rightarrow> world \<Rightarrow> (failure + Transaction) \<times> world" where
  "createOrReuseActiveTransaction h e userId offerId offerTitle offerIconUrl amount_in w =
     (let found = limit 1 (gw_select_active (find_fault e) userId offerId (transactions w))
      in case error found of
           Some findErr \<Rightarrow> (Inl findErr, w)
         | None \<Rightarrow>
             (case first_row (data found) of
                Some existing \<Rightarrow>
                  (let i = id' existing;
                       patch = reuse_patch offerTitle offerIconUrl amount_in existing;
                       (rp, rows') =
                         gw_update (write_fault e) (db_now e) patch i (transactions w);
                       rp1 = limit 1 rp;
                       w1 = w\<lparr>transactions := rows'\<rparr>
                   in case error rp1 of
                        Some err \<Rightarrow> (Inl err, w1)
                      | None \<Rightarrow>
                          (case first_row (data rp1) of
                             None \<Rightarrow>
                               emit_and_return h
                                 (mapRow ((apply_patch patch existing)\<lparr>id' := i\<rparr>)) w1
                           | Some row \<Rightarrow> emit_and_return h (mapRow row) w1))
              | None \<Rightarrow>
                  createPendingTransaction h e userId (Some offerId) offerTitle
                    offerIconUrl amount_in None w))"

text \<open>
  \<^verbatim>\<open>
  export async function updateTransactionStatus(id, status, options?) {
    const patch: any = { status };
    if (options) {
      if (options.notes !== undefined) patch.notes = options.notes;
      if (options.reviewed_by !== undefined) patch.reviewed_by = options.reviewed_by;
      // default reviewed_at to now if not provided when setting non-pending status
      if (options.reviewed_at !== undefined) patch.reviewed_at = options.reviewed_at;
      else if (status !== 'pending') patch.reviewed_at = new Date().toISOString();
    }
    const { data, error } = await supabase.from('transactions').update(patch)
      .eq('id', id).select('*').single();
    if (error) throw error;
    const tx = mapRow(data);
    emitTransaction(tx);
    return tx;
  }
  \<close>
  \<^verbatim>\<open>mapRow(null)\<close> reads a property of \<^verbatim>\<open>null\<close>, a \<^verbatim>\<open>TypeError\<close>.
\<close>

text \<open>The \<^verbatim>\<open>patch\<close> that \<^verbatim>\<open>updateTransactionStatus\<close> builds.\<close>

definition status_patch :: "env \<Rightarrow> TransactionStatus \<Rightarrow> Options option \<Rightarrow> Patch" where
  "status_patch e st options =
     (let patch = \<lparr>set_status = Some st, set_offer_title = None, set_offer_icon_url = None,
                   set_amount = None, set_notes = None, set_reviewed_by = None,
                   set_reviewed_at = None\<rparr>
      in case options of
           None \<Rightarrow> patch
         | Some opts \<Rightarrow>
             patch\<lparr>set_notes := opt_notes opts,
                   set_reviewed_by := opt_reviewed_by opts,
                   set_reviewed_at :=
                     (case opt_reviewed_at opts of
                        Some v \<Rightarrow> Some v
                      | None \<Rightarrow>
                          if st \<noteq> pending then Some (Some (client_clock e 0)) else None)\<rparr>)"

definition updateTransactionStatus ::
  "Transaction handlers \<Rightarrow> env \<Rightarrow> string \<Rightarrow> TransactionStatus \<Rightarrow> Options option \<Rightarrow>
   world \<Rightarrow> (failure + Transaction) \<times> world" where
  "updateTransactionStatus h e i st options w =
     (let patch = status_patch e st options;
          (rp, rows') = gw_update (write_fault e) (db_now e) patch i (transactions w);
          rp1 = single rp;
          w1 = w\<lparr>transactions := rows'\<rparr>
      in case error rp1 of
           Some err \<Rightarrow> (Inl err, w1)
         | None \<Rightarrow>
             (case data rp1 of
                None \<Rightarrow> (Inl TypeError, w1)
              | Some d \<Rightarrow> emit_and_return h (mapRow d) w1))"

subsection \<open>Notions used to state the properties\<close>

text \<open>The rows of a user for an offer, and those of them a new attempt may reuse.\<close>

definition pair_rows :: "string \<Rightarrow> string \<Rightarrow> Transaction list \<Rightarrow> Transaction list" where
  "pair_rows u oid rows = filter (\<lambda>r. user_id r = u \<and> offer_id r = Some oid) rows"

definition active_rows :: "string \<Rightarrow> string \<Rightarrow> Transaction list \<Rightarrow> Transaction list" where
  "active_rows u oid rows =
     filter (\<lambda>r. user_id r = u \<and> offer_id r = Some oid \<and> status r \<noteq> paid) rows"

text \<open>
  The object \<^verbatim>\<open>createPendingTransaction\<close> builds from its arguments when the insert
  returns no row.
\<close>

definition synthesized ::
  "env \<Rightarrow> string \<Rightarrow> string option \<Rightarrow> string option \<Rightarrow> string option \<Rightarrow> real option \<Rightarrow>
   string option \<Rightarrow> Transaction" where
  "synthesized e userId offerId offerTitle offerIconUrl amount_in proofUrl =
     \<lparr>id' = ''unknown'', user_id = userId, offer_id = offerId, offer_title = offerTitle,
      offer_icon_url = offerIconUrl, amount = amount_in, status = pending,
      proof_url = proofUrl, notes' = None, reviewed_by = None, reviewed_at = None,
      created_at = client_clock e 0, updated_at = client_clock e 1\<rparr>"






text \<open>
  \<^verbatim>\<open>createOrReuseActiveTransaction\<close> is suspended at its first \<^verbatim>\<open>await\<close>, the find
  query, and other code runs until the reply is there. The two halves of the function:
  the query, answered from the table as it is when the query is made, and the code
  after the \<^verbatim>\<open>await\<close>, which acts on the table as it is when the function is resumed.
\<close>

definition find_active :: "env \<Rightarrow> string \<Rightarrow> string \<Rightarrow> world \<Rightarrow> Transaction list reply" where
  "find_active e userId offerId w =
     limit 1 (gw_select_active (find_fault e) userId offerId (transactions w))"

definition resume_after_find ::
  "Transaction handlers \<Rightarrow> env \<Rightarrow> string \<Rightarrow> string \<Rightarrow> string option \<Rightarrow>
   string option \<Rightarrow> real option \<Rightarrow> Transaction list reply \<Rightarrow> world \<Rightarrow>
   (failure + Transaction) \<times> world" where
  "resume_after_find h e userId offerId offerTitle offerIconUrl amount_in found w =
     (case error found of
        Some findErr \<Rightarrow> (Inl findErr, w)
      | None \<Rightarrow>
          (case first_row (data found) of
             Some existing \<Rightarrow>
               (let i = id' existing;
                    patch = reuse_patch offerTitle offerIconUrl amount_in existing;
                    (rp, rows') =
                      gw_update (write_fault e) (db_now e) patch i (transactions w);
                    rp1 = limit 1 rp;
                    w1 = w\<lparr>transactions := rows'\<rparr>
                in case error rp1 of
                     Some err \<Rightarrow> (Inl err, w1)
                   | None \<Rightarrow>
                       (case first_row (data rp1) of
                          None \<Rightarrow>
                            emit_and_return h
                              (mapRow ((apply_patch patch existing)\<lparr>id' := i\<rparr>)) w1
                        | Some row \<Rightarrow> emit_and_return h (mapRow row) w1))
           | None \<Rightarrow>
               createPendingTransaction h e userId (Some offerId) offerTitle
                 offerIconUrl amount_in None w))"


subsection \<open>Sample data\<close>

text \<open>Callbacks that do nothing beyond being invoked.\<close>

definition quiet :: "Transaction handlers" where
  "quiet = (\<lambda>cb tx. [])"

definition rejected_row :: Transaction where
  "rejected_row =
     \<lparr>id' = ''t1'', user_id = ''u1'', offer_id = Some ''o1'',
      offer_title = Some ''Old title'', offer_icon_url = None, amount = Some 5,
      status = rejected, proof_url = None, notes' = Some ''blurry'',
      reviewed_by = Some ''admin1'', reviewed_at = Some 150, created_at = 100,
      updated_at = 150\<rparr>"

definition pending_row :: Transaction where
  "pending_row =
     \<lparr>id' = ''t1'', user_id = ''u1'', offer_id = Some ''o1'',
      offer_title = Some ''Old title'', offer_icon_url = None, amount = Some 5,
      status = pending, proof_url = None, notes' = None,
      reviewed_by = None, reviewed_at = None, created_at = 100,
      updated_at = 100\<rparr>"

text \<open>A world with the given table and one registered listener.\<close>

definition world_of :: "Transaction list \<Rightarrow> world" where
  "world_of rows = \<lparr>transactions = rows, bus = \<lparr>listeners = [7], calls = []\<rparr>\<rparr>"

definition gateway_of :: "fault \<Rightarrow> fault \<Rightarrow> env" where
  "gateway_of ff wrf =
     \<lparr>find_fault = ff, write_fault = wrf, new_id = ''t2'', db_now = 200,
      client_clock = (\<lambda>n. 300 + n)\<rparr>"


section \<open>Read-model subscriptions (src/lib/transactions.ts, src/lib/content.ts)\<close>

text \<open>
  \<^verbatim>\<open>subscribeTransactionsForUser\<close>, \<^verbatim>\<open>subscribeAllTransactions\<close>, \<^verbatim>\<open>subscribeOffers\<close> and
  \<^verbatim>\<open>subscribeSlides\<close> are the same code up to the table, the filter and the row mapping
  \<open>f\<close> (\<^verbatim>\<open>mapRow\<close>, \<^verbatim>\<open>fromOfferRow\<close>, \<^verbatim>\<open>fromSlideRow\<close>):
  \<^verbatim>\<open>
  export function subscribeAllTransactions(cb: (items: Transaction[]) => void) {
    let cancelled = false;
    (async () => {
      const { data, error } = await supabase.from('transactions').select('*')
        .order('created_at', { ascending: false });
      if (!cancelled) cb((data as any[] | null)?.map(mapRow) ?? []);
      if (error) console.warn('[transactions] load all error', error.message);
    })();
    const channel = supabase.channel('transactions-all')
      .on('postgres_changes', { event: '*', schema: 'public', table: 'transactions' },
        async () => {
          const { data } = await supabase.from('transactions').select('*')
            .order('created_at', { ascending: false });
          if (!cancelled) cb((data as any[] | null)?.map(mapRow) ?? []);
        })
      .subscribe();
    return () => { cancelled = true; supabase.removeChannel(channel); };
  }
  \<close>
  JavaScript runs each piece of code between two \<^verbatim>\<open>await\<close>s to its end before anything
  else, so one subscription is a state and a sequence of events: a query that was
  awaited settles and the code after the \<^verbatim>\<open>await\<close> runs, the change feed calls the
  handler, or the caller calls the function that was returned. \<open>delivered\<close> is the
  observation log, the arguments of the calls \<^verbatim>\<open>cb(...)\<close> so far.
\<close>

record 'a subscription =
  cancelled :: bool
  channel :: bool
  in_flight :: nat
  delivered :: "'a list list"

datatype 'r event = Settle "'r list option" | Change | Unsubscribe

text \<open>
  The state when the subscribing function returns: the first query is awaited and the
  channel is registered.
\<close>

definition subscribe :: "'a subscription" where
  "subscribe = \<lparr>cancelled = False, channel = True, in_flight = 1, delivered = []\<rparr>"

text \<open>
  \<open>Settle d\<close>: a query in flight resolves with \<^verbatim>\<open>data\<close> \<open>d\<close> (\<open>None\<close> is \<^verbatim>\<open>null\<close>) and
  \<^verbatim>\<open>if (!cancelled) cb(data?.map(f) ?? [])\<close> runs. \<open>Change\<close>: the handler starts a query;
  whether the gateway still calls it once the channel is removed is the gateway's
  affair, so the model lets it. \<open>Unsubscribe\<close>:
  \<^verbatim>\<open>cancelled = true; supabase.removeChannel(channel)\<close>.
\<close>

fun sub_step :: "('r \<Rightarrow> 'a) \<Rightarrow> 'r event \<Rightarrow> 'a subscription \<Rightarrow> 'a subscription" where
  "sub_step f (Settle d) s =
     (if in_flight s = 0 then s
      else if \<not> cancelled s
      then s\<lparr>in_flight := in_flight s - 1,
             delivered := delivered s @ [case d of None \<Rightarrow> [] | Some rows \<Rightarrow> map f rows]\<rparr>
      else s\<lparr>in_flight := in_flight s - 1\<rparr>)"
| "sub_step f Change s = s\<lparr>in_flight := Suc (in_flight s)\<rparr>"
| "sub_step f Unsubscribe s = s\<lparr>cancelled := True, channel := False\<rparr>"

fun sub_run :: "('r \<Rightarrow> 'a) \<Rightarrow> 'r event list \<Rightarrow> 'a subscription \<Rightarrow> 'a subscription" where
  "sub_run f [] s = s"
| "sub_run f (ev # evs) s = sub_run f evs (sub_step f ev s)"

section \<open>Facts about the bus\<close>

lemma calls_invoke: "calls (snd (invoke h cb tx s)) = calls s @ [(cb, tx)]"
  by (simp add: invoke_def split: prod.splits)

lemma calls_deliver: "calls (deliver h tx cbs s) = calls s @ map (\<lambda>c. (c, tx)) cbs"
proof (induction cbs arbitrary: s)
  case Nil
  show ?case by simp
next
  case (Cons cb cbs)
  obtain b s' where inv: "invoke h cb tx s = (b, s')"
    by (cases "invoke h cb tx s")
  have "calls s' = calls s @ [(cb, tx)]"
    using calls_invoke [of h cb tx s] inv by simp
  with Cons.IH [of s'] inv show ?case
    by (cases b) simp_all
qed

lemma calls_emitTransaction:
  "calls (emitTransaction h tx s) = calls s @ map (\<lambda>c. (c, tx)) (listeners s)"
  by (simp add: emitTransaction_def calls_deliver)

lemma new_calls_emitTransaction:
  "new_calls s (emitTransaction h tx s) = map (\<lambda>c. (c, tx)) (listeners s)"
  by (simp add: new_calls_def calls_emitTransaction)

lemma distinct_set_add: "distinct ls \<Longrightarrow> distinct (set_add cb ls)"
  by (simp add: set_add_def)

lemma set_add_idem: "set_add cb (set_add cb ls) = set_add cb ls"
  by (simp add: set_add_def)

lemma listeners_register_all_append:
  "distinct (ls @ cbs) \<Longrightarrow>
   listeners (register_all cbs \<lparr>listeners = ls, calls = cs\<rparr>) = ls @ cbs"
proof (induction cbs arbitrary: ls)
  case Nil
  show ?case by simp
next
  case (Cons cb cbs)
  have "distinct ((ls @ [cb]) @ cbs)" using Cons.prems by simp
  from Cons.IH [OF this] Cons.prems show ?case
    by (simp add: addTransactionListener_def set_add_def)
qed

lemma calls_register_all: "calls (register_all cbs s) = calls s"
  by (induction cbs arbitrary: s) (simp_all add: addTransactionListener_def)

lemma listeners_register_all:
  "distinct cbs \<Longrightarrow> listeners (register_all cbs empty_bus) = cbs"
  using listeners_register_all_append [of "[]" cbs "[]"] by (simp add: empty_bus_def)

lemma distinct_run_body: "distinct ls \<Longrightarrow> distinct (snd (run_body es ls))"
  by (induction es ls rule: run_body.induct)
    (simp_all add: distinct_set_add set_delete_def distinct_removeAll)

lemma distinct_invoke:
  "distinct (listeners s) \<Longrightarrow> distinct (listeners (snd (invoke h cb tx s)))"
  using distinct_run_body [of "listeners s" "h cb tx"]
  by (cases "run_body (h cb tx) (listeners s)") (simp add: invoke_def)

lemma distinct_deliver:
  "distinct (listeners s) \<Longrightarrow> distinct (listeners (deliver h tx cbs s))"
proof (induction cbs arbitrary: s)
  case Nil
  then show ?case by simp
next
  case (Cons cb cbs)
  obtain b s' where inv: "invoke h cb tx s = (b, s')"
    by (cases "invoke h cb tx s")
  have "distinct (listeners s')"
    using distinct_invoke [OF Cons.prems, of h cb tx] inv by simp
  from Cons.IH [OF this] inv show ?case
    by (cases b) simp_all
qed

lemma count_list_distinct: "distinct xs \<Longrightarrow> x \<in> set xs \<Longrightarrow> count_list xs x = 1"
  by (induction xs) auto

lemma count_list_map_pair: "count_list (map (\<lambda>c. (c, tx)) xs) (c, tx) = count_list xs c"
  by (induction xs) auto

lemma mapRow_id: "mapRow r = r"
  by (cases r) (simp add: mapRow_def)

lemma nullish_None: "nullish a None = a"
  by (cases a) (simp_all add: nullish_def)

lemma newest_first_Cons:
  assumes "newest_first xs = x # ys"
  shows "x \<in> set xs \<and> (\<forall>y\<in>set xs. created_at y \<le> created_at x)"
proof -
  have eq: "sort_key created_at xs = rev ys @ [x]"
    using assms unfolding newest_first_def by (metis rev.simps(2) rev_rev_ident)
  have "set xs = set (rev ys @ [x])"
    using eq by (metis set_sort)
  moreover have "sorted (map created_at (rev ys @ [x]))"
    using eq by (metis sorted_sort_key)
  ultimately show ?thesis
    by (auto simp: sorted_append)
qed

lemma newest_first_Nil: "newest_first xs = [] \<longleftrightarrow> xs = []"
  by (metis newest_first_def rev_is_Nil_conv length_sort length_0_conv)

lemma createPendingTransaction_hidden:
  assumes "write_fault e = Hidden" and "new_id e \<notin> set (map id' (transactions w))"
  shows "createPendingTransaction h e userId offerId offerTitle offerIconUrl amount_in proofUrl w =
    emit_and_return h
      \<lparr>id' = ''unknown'', user_id = userId, offer_id = offerId, offer_title = offerTitle,
       offer_icon_url = offerIconUrl, amount = amount_in, status = pending,
       proof_url = proofUrl, notes' = None, reviewed_by = None, reviewed_at = None,
       created_at = client_clock e 0, updated_at = client_clock e 1\<rparr>
      (w\<lparr>transactions := transactions w @
         [\<lparr>id' = new_id e, user_id = userId, offer_id = offerId, offer_title = offerTitle,
           offer_icon_url = offerIconUrl, amount = amount_in, status = pending,
           proof_url = proofUrl, notes' = None, reviewed_by = None, reviewed_at = None,
           created_at = db_now e, updated_at = db_now e\<rparr>]\<rparr>)"
  using assms
  by (simp add: createPendingTransaction_def gw_insert_def limit_def first_row_def
      mapRow_id nullish_None Let_def)

lemma createPendingTransaction_healthy:
  assumes "write_fault e = Healthy" and "new_id e \<notin> set (map id' (transactions w))"
  shows "createPendingTransaction h e userId offerId offerTitle offerIconUrl amount_in proofUrl w =
    emit_and_return h
      \<lparr>id' = new_id e, user_id = userId, offer_id = offerId, offer_title = offerTitle,
       offer_icon_url = offerIconUrl, amount = amount_in, status = pending,
       proof_url = proofUrl, notes' = None, reviewed_by = None, reviewed_at = None,
       created_at = db_now e, updated_at = db_now e\<rparr>
      (w\<lparr>transactions := transactions w @
         [\<lparr>id' = new_id e, user_id = userId, offer_id = offerId, offer_title = offerTitle,
           offer_icon_url = offerIconUrl, amount = amount_in, status = pending,
           proof_url = proofUrl, notes' = None, reviewed_by = None, reviewed_at = None,
           created_at = db_now e, updated_at = db_now e\<rparr>]\<rparr>)"
  using assms
  by (simp add: createPendingTransaction_def gw_insert_def limit_def first_row_def
      mapRow_id nullish_None Let_def)



lemma select_hidden:
  "find_fault e = Hidden \<Longrightarrow>
   createOrReuseActiveTransaction h e u oid t ic a w =
   createPendingTransaction h e u (Some oid) t ic a None w"
  by (simp add: createOrReuseActiveTransaction_def gw_select_active_def limit_def first_row_def)

lemma select_none:
  "find_fault e = Healthy \<Longrightarrow> active_rows u oid (transactions w) = [] \<Longrightarrow>
   createOrReuseActiveTransaction h e u oid t ic a w =
   createPendingTransaction h e u (Some oid) t ic a None w"
  by (simp add: createOrReuseActiveTransaction_def gw_select_active_def limit_def first_row_def
      active_rows_def newest_first_def)

lemma id_write_row: "id' (write_row now p i r) = id' r"
  by (simp add: write_row_def apply_patch_def)

lemma filter_id_write_row:
  "filter (\<lambda>r. id' r = i) (map (write_row now p j) rows) =
   map (write_row now p j) (filter (\<lambda>r. id' r = i) rows)"
  by (induction rows) (simp_all add: id_write_row)

lemma select_some:
  assumes "find_fault e = Healthy"
      and "newest_first (active_rows u oid (transactions w)) = existing # rest"
  shows "createOrReuseActiveTransaction h e u oid t ic a w =
     (case write_fault e of
        Failing m \<Rightarrow> (Inl (GatewayError m), w)
      | Hidden \<Rightarrow>
          emit_and_return h (apply_patch (reuse_patch t ic a existing) existing)
            (w\<lparr>transactions :=
                 map (write_row (db_now e) (reuse_patch t ic a existing) (id' existing))
                   (transactions w)\<rparr>)
      | Healthy \<Rightarrow>
          emit_and_return h
            (write_row (db_now e) (reuse_patch t ic a existing) (id' existing)
               (hd (filter (\<lambda>r. id' r = id' existing) (transactions w))))
            (w\<lparr>transactions :=
                 map (write_row (db_now e) (reuse_patch t ic a existing) (id' existing))
                   (transactions w)\<rparr>))"
proof -
  have mem: "existing \<in> set (transactions w)"
    using newest_first_Cons [OF assms(2)] by (simp add: active_rows_def)
  then obtain y ys where
    ne: "filter (\<lambda>r. id' r = id' existing) (transactions w) = y # ys"
    by (cases "filter (\<lambda>r. id' r = id' existing) (transactions w)") (auto simp: filter_empty_conv)
  have idp: "(apply_patch (reuse_patch t ic a existing) existing)\<lparr>id' := id' existing\<rparr>
     = apply_patch (reuse_patch t ic a existing) existing"
    by (simp add: apply_patch_def)
  show ?thesis
    using assms ne
    by (cases "write_fault e")
      (simp_all add: createOrReuseActiveTransaction_def gw_select_active_def limit_def
        first_row_def active_rows_def gw_update_def Let_def mapRow_id idp
        filter_id_write_row)
qed

lemma fields_write_row_reuse:
  assumes "id' r = i"
  shows "status (write_row now (reuse_patch t ic a existing) i r) = pending"
    and "reviewed_at (write_row now (reuse_patch t ic a existing) i r) = None"
    and "reviewed_by (write_row now (reuse_patch t ic a existing) i r) = None"
    and "offer_title (write_row now (reuse_patch t ic a existing) i r) = nullish t (offer_title existing)"
    and "offer_icon_url (write_row now (reuse_patch t ic a existing) i r) = nullish ic (offer_icon_url existing)"
    and "amount (write_row now (reuse_patch t ic a existing) i r) = nullish a (amount existing)"
  using assms by (simp_all add: write_row_def apply_patch_def reuse_patch_def nullish_None)

lemma fields_apply_reuse:
  shows "status (apply_patch (reuse_patch t ic a existing) r) = pending"
    and "reviewed_at (apply_patch (reuse_patch t ic a existing) r) = None"
    and "reviewed_by (apply_patch (reuse_patch t ic a existing) r) = None"
    and "offer_title (apply_patch (reuse_patch t ic a existing) r) = nullish t (offer_title existing)"
    and "offer_icon_url (apply_patch (reuse_patch t ic a existing) r) = nullish ic (offer_icon_url existing)"
    and "amount (apply_patch (reuse_patch t ic a existing) r) = nullish a (amount existing)"
    and "id' (apply_patch (reuse_patch t ic a existing) r) = id' r"
  by (simp_all add: apply_patch_def reuse_patch_def nullish_None)

lemmas sample_defs = quiet_def rejected_row_def world_of_def gateway_of_def

lemmas run_defs =
  createOrReuseActiveTransaction_def createPendingTransaction_def updateTransactionStatus_def
  gw_select_active_def gw_update_def gw_insert_def limit_def single_def first_row_def
  newest_first_def write_row_def apply_patch_def reuse_patch_def status_patch_def nullish_def
  mapRow_def emit_and_return_def Let_def

lemma pair_rows_append:
  "pair_rows u oid (xs @ ys) = pair_rows u oid xs @ pair_rows u oid ys"
  by (simp add: pair_rows_def)

lemma gw_select_active_Healthy:
  "gw_select_active Healthy u oid rows =
   \<lparr>data = Some (newest_first (active_rows u oid rows)), error = None\<rparr>"
  by (simp add: gw_select_active_def active_rows_def)

lemma select_found:
  "first_row (data (limit 1 (gw_select_active f u oid rows))) = Some existing \<longleftrightarrow>
   f = Healthy \<and> (\<exists>rest. newest_first (active_rows u oid rows) = existing # rest)"
proof (cases f)
  case Healthy
  then show ?thesis
    by (cases "newest_first (active_rows u oid rows)")
      (simp_all add: gw_select_active_Healthy limit_def first_row_def)
next
  case (Failing m)
  then show ?thesis by (simp add: gw_select_active_def limit_def first_row_def)
next
  case Hidden
  then show ?thesis by (simp add: gw_select_active_def limit_def first_row_def)
qed

lemma select_found_none:
  "error (limit 1 (gw_select_active f u oid rows)) = None \<and>
   first_row (data (limit 1 (gw_select_active f u oid rows))) = None \<longleftrightarrow>
   f = Hidden \<or> f = Healthy \<and> active_rows u oid rows = []"
proof (cases f)
  case Healthy
  then show ?thesis
    using newest_first_Nil [of "active_rows u oid rows"]
    by (cases "newest_first (active_rows u oid rows)")
      (simp_all add: gw_select_active_Healthy limit_def first_row_def)
next
  case (Failing m)
  then show ?thesis by (simp add: gw_select_active_def limit_def first_row_def)
next
  case Hidden
  then show ?thesis by (simp add: gw_select_active_def limit_def first_row_def)
qed

lemma map_write_row_absent:
  "i \<notin> set (map id' rows) \<Longrightarrow> map (write_row now p i) rows = rows"
  by (induction rows) (auto simp: write_row_def)

lemma filter_id_absent:
  "i \<notin> set (map id' rows) \<Longrightarrow> filter (\<lambda>r. id' r = i) rows = []"
  by (induction rows) auto

lemma updateTransactionStatus_absent:
  assumes "i \<notin> set (map id' (transactions w))"
  shows "\<exists>err. updateTransactionStatus h e i st opts w = (Inl err, w)"
  using assms
  by (cases "write_fault e")
    (simp_all add: updateTransactionStatus_def gw_update_def single_def
      map_write_row_absent filter_id_absent filter_id_write_row)








lemma createOrReuseActiveTransaction_split:
  "createOrReuseActiveTransaction h e u oid t ic a w =
   resume_after_find h e u oid t ic a (find_active e u oid w) w"
  by (simp add: createOrReuseActiveTransaction_def resume_after_find_def find_active_def
      Let_def)



lemma updateTransactionStatus_one_row:
  assumes "write_fault e = Healthy"
      and "filter (\<lambda>r. id' r = i) (transactions w) = [r]"
  shows "updateTransactionStatus h e i st opts w =
     emit_and_return h (write_row (db_now e) (status_patch e st opts) i r)
       (w\<lparr>transactions := map (write_row (db_now e) (status_patch e st opts) i)
            (transactions w)\<rparr>)"
  using assms
  by (simp add: updateTransactionStatus_def gw_update_def single_def filter_id_write_row
      mapRow_id Let_def)

section \<open>Facts about subscriptions\<close>

lemma sub_run_append: "sub_run f (xs @ ys) s = sub_run f ys (sub_run f xs s)"
  by (induction xs arbitrary: s) simp_all

lemma sub_step_cancelled:
  "cancelled s \<Longrightarrow> cancelled (sub_step f ev s) \<and> delivered (sub_step f ev s) = delivered s"
  by (cases ev) simp_all

lemma sub_run_cancelled:
  "cancelled s \<Longrightarrow> cancelled (sub_run f evs s) \<and> delivered (sub_run f evs s) = delivered s"
proof (induction evs arbitrary: s)
  case Nil
  then show ?case by simp
next
  case (Cons ev evs)
  from sub_step_cancelled [OF Cons.prems, of f ev]
  have c: "cancelled (sub_step f ev s)" and d: "delivered (sub_step f ev s) = delivered s"
    by simp_all
  from Cons.IH [OF c] d show ?case by simp
qed

lemma sub_step_live:
  "\<not> cancelled s \<Longrightarrow> 0 < in_flight s \<Longrightarrow>
   delivered (sub_step f (Settle (Some rows)) s) = delivered s @ [map f rows]"
  by simp

section \<open>The properties\<close>

text \<open>
  C5. Publishing invokes every callback registered at that moment with the payload,
  once each and in registration order, whatever any of the callbacks does: a callback
  that throws does not stop the delivery to the ones after it. Callbacks registered one
  after the other on an empty bus are held, and so invoked, in the order of their
  registration.
\<close>

theorem emitTransaction_delivers_to_all:
  "new_calls s (emitTransaction h tx s) = map (\<lambda>c. (c, tx)) (listeners s) \<and>
   (distinct cbs \<longrightarrow>
      new_calls (register_all cbs empty_bus)
        (emitTransaction h tx (register_all cbs empty_bus)) = map (\<lambda>c. (c, tx)) cbs)"
  by (simp add: new_calls_emitTransaction listeners_register_all)

text \<open>
  Three listeners 1, 2, 3 registered in this order, the second of which throws: the
  payload reaches 1, 2 and 3.
\<close>

theorem emitTransaction_delivers_to_all_witness:
  "distinct [1, 2, 3 :: nat] \<and>
   run_body ((\<lambda>(c :: nat) (p :: string). if c = 2 then [Throw] else []) 2 ''tx'') [1, 2, 3]
     = (True, [1, 2, 3]) \<and>
   new_calls (register_all [1, 2, 3] empty_bus)
     (emitTransaction (\<lambda>c p. if c = 2 then [Throw] else []) ''tx''
        (register_all [1, 2, 3] empty_bus))
     = [(1, ''tx''), (2, ''tx''), (3, ''tx'')]"
  using emitTransaction_delivers_to_all
    [of "register_all [1, 2, 3] empty_bus" "\<lambda>c p. if c = 2 then [Throw] else []"
        "''tx''" "[1, 2, 3]"]
  by (simp add: addTransactionListener_def set_add_def empty_bus_def)

text \<open>
  C3. When a transaction of the user for the offer exists that is not paid, and the
  gateway serves the find and carries out the write, the call returns a row with status
  pending and with reviewer and review time cleared; it carries the id of the newest
  such transaction, and its title, icon and amount are the values passed in the call
  where one is given and the stored values of that transaction otherwise.
\<close>

theorem reuse_resets_review_fields:
  assumes "find_fault e = Healthy"
      and "write_fault e = Healthy \<or> write_fault e = Hidden"
      and "r \<in> set (transactions w)"
      and "user_id r = u" and "offer_id r = Some oid" and "status r \<noteq> paid"
  shows "\<exists>existing tx w'.
     createOrReuseActiveTransaction h e u oid t ic a w = (Inr tx, w') \<and>
     existing \<in> set (active_rows u oid (transactions w)) \<and>
     (\<forall>x \<in> set (active_rows u oid (transactions w)). created_at x \<le> created_at existing) \<and>
     id' tx = id' existing \<and>
     status tx = pending \<and> reviewed_at tx = None \<and> reviewed_by tx = None \<and>
     offer_title tx = (case t of Some v \<Rightarrow> Some v | None \<Rightarrow> offer_title existing) \<and>
     offer_icon_url tx = (case ic of Some v \<Rightarrow> Some v | None \<Rightarrow> offer_icon_url existing) \<and>
     amount tx = (case a of Some v \<Rightarrow> Some v | None \<Rightarrow> amount existing)"
proof -
  have "r \<in> set (active_rows u oid (transactions w))"
    using assms by (simp add: active_rows_def)
  then have "newest_first (active_rows u oid (transactions w)) \<noteq> []"
    by (auto simp: newest_first_Nil)
  then obtain existing rest where
    nf: "newest_first (active_rows u oid (transactions w)) = existing # rest"
    by (cases "newest_first (active_rows u oid (transactions w))") auto
  note top = newest_first_Cons [OF nf]
  have "existing \<in> set (transactions w)"
    using top by (simp add: active_rows_def)
  then obtain y ys where
    ne: "filter (\<lambda>r. id' r = id' existing) (transactions w) = y # ys"
    by (cases "filter (\<lambda>r. id' r = id' existing) (transactions w)") (auto simp: filter_empty_conv)
  then have "y \<in> set (filter (\<lambda>r. id' r = id' existing) (transactions w))"
    by simp
  then have idy: "id' y = id' existing" by simp
  from assms(2) show ?thesis
  proof
    assume wrf: "write_fault e = Healthy"
    show ?thesis
      using select_some [OF assms(1) nf, of h t ic a] top wrf ne idy
      by (auto simp: emit_and_return_def fields_write_row_reuse id_write_row nullish_def)
  next
    assume wrf: "write_fault e = Hidden"
    show ?thesis
      using select_some [OF assms(1) nf, of h t ic a] top wrf
      by (auto simp: emit_and_return_def fields_apply_reuse nullish_def)
  qed
qed

theorem reuse_resets_review_fields_witness:
  "find_fault (gateway_of Healthy Healthy) = Healthy \<and>
   (write_fault (gateway_of Healthy Healthy) = Healthy \<or>
    write_fault (gateway_of Healthy Healthy) = Hidden) \<and>
   rejected_row \<in> set (transactions (world_of [rejected_row])) \<and>
   user_id rejected_row = ''u1'' \<and> offer_id rejected_row = Some ''o1'' \<and>
   status rejected_row \<noteq> paid \<and>
   fst (createOrReuseActiveTransaction quiet (gateway_of Healthy Healthy) ''u1'' ''o1''
          (Some ''New title'') None None (world_of [rejected_row])) =
     Inr (rejected_row\<lparr>status := pending, offer_title := Some ''New title'',
            reviewed_by := None, reviewed_at := None, updated_at := 200\<rparr>)"
  using reuse_resets_review_fields
    [of "gateway_of Healthy Healthy" rejected_row "world_of [rejected_row]" "''u1''" "''o1''"
        quiet "Some ''New title''" None None]
  by (simp add: gateway_of_def world_of_def rejected_row_def quiet_def
      createOrReuseActiveTransaction_def gw_select_active_def limit_def first_row_def
      newest_first_def gw_update_def write_row_def apply_patch_def reuse_patch_def
      nullish_def mapRow_def emit_and_return_def Let_def)

text \<open>
  C4. When the only transaction of the user for the offer is paid, and the gateway
  carries out the request and assigns an unused id, the call appends one new pending row
  for the pair, whose id differs from that of the paid row; every row of the table,
  the paid one among them, is kept as it was, so both rows are there afterwards.
\<close>

theorem paid_is_never_reused:
  assumes "pair_rows u oid (transactions w) = [p]" and "status p = paid"
      and "find_fault e = Healthy \<or> find_fault e = Hidden"
      and "write_fault e = Healthy \<or> write_fault e = Hidden"
      and "new_id e \<notin> set (map id' (transactions w))"
  shows "\<exists>tx w' n.
     createOrReuseActiveTransaction h e u oid t ic a w = (Inr tx, w') \<and>
     transactions w' = transactions w @ [n] \<and>
     status n = pending \<and> user_id n = u \<and> offer_id n = Some oid \<and>
     id' n = new_id e \<and> id' n \<noteq> id' p \<and>
     p \<in> set (transactions w') \<and> status p = paid \<and>
     pair_rows u oid (transactions w') = [p, n]"
proof -
  have pin: "p \<in> set (pair_rows u oid (transactions w))"
    using assms(1) by simp
  then have pmem: "p \<in> set (transactions w)"
    by (simp add: pair_rows_def)
  have "active_rows u oid (transactions w) = filter (\<lambda>r. status r \<noteq> paid) (pair_rows u oid (transactions w))"
    by (simp add: active_rows_def pair_rows_def conj_commute conj_left_commute)
  then have none: "active_rows u oid (transactions w) = []"
    using assms(1,2) by simp
  have eq: "createOrReuseActiveTransaction h e u oid t ic a w =
        createPendingTransaction h e u (Some oid) t ic a None w"
    using assms(3) select_none [OF _ none] select_hidden by blast
  have neq: "new_id e \<noteq> id' p"
    using assms(5) pmem by auto
  from assms(4) show ?thesis
  proof
    assume "write_fault e = Healthy"
    from createPendingTransaction_healthy [OF this assms(5), of h u "Some oid" t ic a None]
    show ?thesis
      using eq assms(1,2) neq pmem
      by (simp add: emit_and_return_def pair_rows_append) (simp add: pair_rows_def)
  next
    assume "write_fault e = Hidden"
    from createPendingTransaction_hidden [OF this assms(5), of h u "Some oid" t ic a None]
    show ?thesis
      using eq assms(1,2) neq pmem
      by (simp add: emit_and_return_def pair_rows_append) (simp add: pair_rows_def)
  qed
qed

theorem paid_is_never_reused_witness:
  "pair_rows ''u1'' ''o1'' (transactions (world_of [rejected_row\<lparr>status := paid\<rparr>])) =
     [rejected_row\<lparr>status := paid\<rparr>] \<and>
   status (rejected_row\<lparr>status := paid\<rparr>) = paid \<and>
   (find_fault (gateway_of Healthy Healthy) = Healthy \<or>
    find_fault (gateway_of Healthy Healthy) = Hidden) \<and>
   (write_fault (gateway_of Healthy Healthy) = Healthy \<or>
    write_fault (gateway_of Healthy Healthy) = Hidden) \<and>
   new_id (gateway_of Healthy Healthy)
     \<notin> set (map id' (transactions (world_of [rejected_row\<lparr>status := paid\<rparr>]))) \<and>
   map (\<lambda>r. (id' r, status r))
     (transactions (snd (createOrReuseActiveTransaction quiet (gateway_of Healthy Healthy)
        ''u1'' ''o1'' (Some ''New title'') None (Some 5)
        (world_of [rejected_row\<lparr>status := paid\<rparr>])))) =
     [(''t1'', paid), (''t2'', pending)]"
  using paid_is_never_reused
    [of "''u1''" "''o1''" "world_of [rejected_row\<lparr>status := paid\<rparr>]"
        "rejected_row\<lparr>status := paid\<rparr>" "gateway_of Healthy Healthy" quiet
        "Some ''New title''" None "Some 5"]
  by (simp add: sample_defs run_defs pair_rows_def)

text \<open>
  C7. When the write is carried out and no row comes back, neither function fails.
  \<^verbatim>\<open>createPendingTransaction\<close>, called directly or by
  \<^verbatim>\<open>createOrReuseActiveTransaction\<close> when the find returns no row, returns the object
  built from its arguments; on the reuse branch the result is the patch merged onto the
  row the find returned. In each case every registered listener is invoked with the
  returned object.
\<close>

theorem degraded_write_is_synthesized:
  "(write_fault e = Hidden \<and> new_id e \<notin> set (map id' (transactions w)) \<longrightarrow>
      (\<exists>w'. createPendingTransaction h e userId offerId offerTitle offerIconUrl amount_in
               proofUrl w =
             (Inr (synthesized e userId offerId offerTitle offerIconUrl amount_in proofUrl), w') \<and>
            new_calls (bus w) (bus w') =
              map (\<lambda>c. (c, synthesized e userId offerId offerTitle offerIconUrl amount_in
                            proofUrl)) (listeners (bus w)))) \<and>
   (write_fault e = Hidden \<and> new_id e \<notin> set (map id' (transactions w)) \<and>
    error (limit 1 (gw_select_active (find_fault e) u oid (transactions w))) = None \<and>
    first_row (data (limit 1 (gw_select_active (find_fault e) u oid (transactions w)))) = None \<longrightarrow>
      (\<exists>w'. createOrReuseActiveTransaction h e u oid t ic a w =
             (Inr (synthesized e u (Some oid) t ic a None), w') \<and>
            new_calls (bus w) (bus w') =
              map (\<lambda>c. (c, synthesized e u (Some oid) t ic a None)) (listeners (bus w)))) \<and>
   (write_fault e = Hidden \<and>
    first_row (data (limit 1 (gw_select_active (find_fault e) u oid (transactions w)))) =
      Some existing \<longrightarrow>
      (\<exists>w'. createOrReuseActiveTransaction h e u oid t ic a w =
             (Inr (apply_patch (reuse_patch t ic a existing) existing), w') \<and>
            new_calls (bus w) (bus w') =
              map (\<lambda>c. (c, apply_patch (reuse_patch t ic a existing) existing))
                (listeners (bus w))))"
proof (intro conjI impI)
  assume a: "write_fault e = Hidden \<and> new_id e \<notin> set (map id' (transactions w))"
  show "\<exists>w'. createPendingTransaction h e userId offerId offerTitle offerIconUrl amount_in
               proofUrl w =
             (Inr (synthesized e userId offerId offerTitle offerIconUrl amount_in proofUrl), w') \<and>
            new_calls (bus w) (bus w') =
              map (\<lambda>c. (c, synthesized e userId offerId offerTitle offerIconUrl amount_in
                            proofUrl)) (listeners (bus w))"
    using createPendingTransaction_hidden [of e w h userId offerId offerTitle offerIconUrl
        amount_in proofUrl] a
    by (simp add: synthesized_def emit_and_return_def new_calls_emitTransaction)
next
  assume a: "write_fault e = Hidden \<and> new_id e \<notin> set (map id' (transactions w)) \<and>
    error (limit 1 (gw_select_active (find_fault e) u oid (transactions w))) = None \<and>
    first_row (data (limit 1 (gw_select_active (find_fault e) u oid (transactions w)))) = None"
  then have "find_fault e = Hidden \<or>
      find_fault e = Healthy \<and> active_rows u oid (transactions w) = []"
    using select_found_none [of "find_fault e" u oid "transactions w"] by blast
  then have eq: "createOrReuseActiveTransaction h e u oid t ic a w =
        createPendingTransaction h e u (Some oid) t ic a None w"
    using select_none select_hidden by blast
  show "\<exists>w'. createOrReuseActiveTransaction h e u oid t ic a w =
             (Inr (synthesized e u (Some oid) t ic a None), w') \<and>
            new_calls (bus w) (bus w') =
              map (\<lambda>c. (c, synthesized e u (Some oid) t ic a None)) (listeners (bus w))"
    using createPendingTransaction_hidden [of e w h u "Some oid" t ic a None] a eq
    by (simp add: synthesized_def emit_and_return_def new_calls_emitTransaction)
next
  assume a: "write_fault e = Hidden \<and>
    first_row (data (limit 1 (gw_select_active (find_fault e) u oid (transactions w)))) =
      Some existing"
  then obtain rest where f: "find_fault e = Healthy"
    and nf: "newest_first (active_rows u oid (transactions w)) = existing # rest"
    using select_found [of "find_fault e" u oid "transactions w" existing] by blast
  show "\<exists>w'. createOrReuseActiveTransaction h e u oid t ic a w =
             (Inr (apply_patch (reuse_patch t ic a existing) existing), w') \<and>
            new_calls (bus w) (bus w') =
              map (\<lambda>c. (c, apply_patch (reuse_patch t ic a existing) existing))
                (listeners (bus w))"
    using select_some [OF f nf, of h t ic a] a
    by (simp add: emit_and_return_def new_calls_emitTransaction)
qed

theorem degraded_write_is_synthesized_witness:
  "write_fault (gateway_of Healthy Hidden) = Hidden \<and>
   new_id (gateway_of Healthy Hidden) \<notin> set (map id' (transactions (world_of []))) \<and>
   createPendingTransaction quiet (gateway_of Healthy Hidden) ''u1'' (Some ''o1'')
       (Some ''Title'') None (Some 5) None (world_of []) =
     (Inr \<lparr>id' = ''unknown'', user_id = ''u1'', offer_id = Some ''o1'',
           offer_title = Some ''Title'', offer_icon_url = None, amount = Some 5,
           status = pending, proof_url = None, notes' = None, reviewed_by = None,
           reviewed_at = None, created_at = 300, updated_at = 301\<rparr>,
      \<lparr>transactions =
         [\<lparr>id' = ''t2'', user_id = ''u1'', offer_id = Some ''o1'',
           offer_title = Some ''Title'', offer_icon_url = None, amount = Some 5,
           status = pending, proof_url = None, notes' = None, reviewed_by = None,
           reviewed_at = None, created_at = 200, updated_at = 200\<rparr>],
       bus = \<lparr>listeners = [7],
         calls = [(7, \<lparr>id' = ''unknown'', user_id = ''u1'', offer_id = Some ''o1'',
           offer_title = Some ''Title'', offer_icon_url = None, amount = Some 5,
           status = pending, proof_url = None, notes' = None, reviewed_by = None,
           reviewed_at = None, created_at = 300, updated_at = 301\<rparr>)]\<rparr>\<rparr>) \<and>
   first_row (data (limit 1 (gw_select_active (find_fault (gateway_of Healthy Hidden))
      ''u1'' ''o1'' (transactions (world_of [rejected_row]))))) = Some rejected_row \<and>
   createOrReuseActiveTransaction quiet (gateway_of Healthy Hidden) ''u1'' ''o1''
       (Some ''New title'') None None (world_of [rejected_row]) =
     (Inr (rejected_row\<lparr>status := pending, offer_title := Some ''New title'',
             reviewed_by := None, reviewed_at := None\<rparr>),
      \<lparr>transactions =
         [rejected_row\<lparr>status := pending, offer_title := Some ''New title'',
             reviewed_by := None, reviewed_at := None, updated_at := 200\<rparr>],
       bus = \<lparr>listeners = [7],
         calls = [(7, rejected_row\<lparr>status := pending, offer_title := Some ''New title'',
             reviewed_by := None, reviewed_at := None\<rparr>)]\<rparr>\<rparr>)"
  using degraded_write_is_synthesized
    [of "gateway_of Healthy Hidden" "world_of []" quiet "''u1''" "Some ''o1''"
        "Some ''Title''" None "Some 5" None]
    degraded_write_is_synthesized
    [where e = "gateway_of Healthy Hidden" and w = "world_of [rejected_row]" and h = quiet
       and u = "''u1''" and oid = "''o1''" and t = "Some ''New title''" and ic = None
       and a = None and existing = rejected_row]
  by (simp add: sample_defs run_defs emitTransaction_def invoke_def)

text \<open>
  C10. When the insert is carried out and returns no row,
  \<^verbatim>\<open>createPendingTransaction\<close> returns an object whose id is the literal
  \<^verbatim>\<open>'unknown'\<close>, whose creation and update times are readings of the client's clock,
  and whose notes, reviewer and review time are null. Unless a row of the table has that
  literal as its id, \<^verbatim>\<open>updateTransactionStatus\<close> called with the id of the returned
  object fails and changes nothing.
\<close>

theorem degraded_insert_has_sentinel_id:
  assumes "write_fault e = Hidden" and "new_id e \<notin> set (map id' (transactions w))"
  shows "\<exists>tx w'.
     createPendingTransaction h e userId offerId offerTitle offerIconUrl amount_in proofUrl w =
       (Inr tx, w') \<and>
     id' tx = ''unknown'' \<and>
     created_at tx = client_clock e 0 \<and> updated_at tx = client_clock e 1 \<and>
     notes' tx = None \<and> reviewed_by tx = None \<and> reviewed_at tx = None \<and>
     (''unknown'' \<notin> set (map id' (transactions w')) \<longrightarrow>
        (\<forall>h2 e2 st opts. \<exists>err.
           updateTransactionStatus h2 e2 (id' tx) st opts w' = (Inl err, w')))"
  using createPendingTransaction_hidden [OF assms, of h userId offerId offerTitle
      offerIconUrl amount_in proofUrl] updateTransactionStatus_absent
  by (simp add: emit_and_return_def)

theorem degraded_insert_has_sentinel_id_witness:
  "write_fault (gateway_of Healthy Hidden) = Hidden \<and>
   new_id (gateway_of Healthy Hidden) \<notin> set (map id' (transactions (world_of []))) \<and>
   fst (createPendingTransaction quiet (gateway_of Healthy Hidden) ''u1'' (Some ''o1'')
       (Some ''Title'') None (Some 5) None (world_of [])) =
     Inr \<lparr>id' = ''unknown'', user_id = ''u1'', offer_id = Some ''o1'',
           offer_title = Some ''Title'', offer_icon_url = None, amount = Some 5,
           status = pending, proof_url = None, notes' = None, reviewed_by = None,
           reviewed_at = None, created_at = 300, updated_at = 301\<rparr> \<and>
   ''unknown'' \<notin> set (map id' (transactions (snd
      (createPendingTransaction quiet (gateway_of Healthy Hidden) ''u1'' (Some ''o1'')
       (Some ''Title'') None (Some 5) None (world_of []))))) \<and>
   fst (updateTransactionStatus quiet (gateway_of Healthy Healthy) ''unknown'' paid None
     (snd (createPendingTransaction quiet (gateway_of Healthy Hidden) ''u1'' (Some ''o1'')
       (Some ''Title'') None (Some 5) None (world_of [])))) = Inl NotSingleRow"
  using degraded_insert_has_sentinel_id
    [of "gateway_of Healthy Hidden" "world_of []" quiet "''u1''" "Some ''o1''"
        "Some ''Title''" None "Some 5" None]
  by (simp add: sample_defs run_defs emitTransaction_def invoke_def)

text \<open>
  C8. Whenever the read-back of the update is not exactly one row (the gateway failed,
  or no row or several rows came back), \<^verbatim>\<open>updateTransactionStatus\<close> fails: it
  returns no transaction, and the event bus is as it was before the call, so no
  listener was invoked.
\<close>

theorem updateTransactionStatus_needs_one_row:
  assumes "\<forall>r. data (fst (gw_update (write_fault e) (db_now e) (status_patch e st opts) i
                  (transactions w))) \<noteq> Some [r]"
  shows "\<exists>err. fst (updateTransactionStatus h e i st opts w) = Inl err \<and>
               bus (snd (updateTransactionStatus h e i st opts w)) = bus w"
proof -
  obtain rp rows' where g: "gw_update (write_fault e) (db_now e) (status_patch e st opts) i
                  (transactions w) = (rp, rows')"
    by (cases "gw_update (write_fault e) (db_now e) (status_patch e st opts) i (transactions w)")
  have nd: "\<forall>r. data rp \<noteq> Some [r]" using assms g by simp
  have "error (single rp) \<noteq> None"
  proof (cases "error rp")
    case None
    show ?thesis
    proof (cases "data rp")
      case None
      then show ?thesis using \<open>error rp = None\<close> by (simp add: single_def)
    next
      case (Some rows)
      then show ?thesis using \<open>error rp = None\<close> nd
        by (cases rows; cases "tl rows") (auto simp add: single_def)
    qed
  next
    case (Some err)
    then show ?thesis by (simp add: single_def)
  qed
  then show ?thesis
    using g by (auto simp add: updateTransactionStatus_def)
qed

theorem updateTransactionStatus_needs_one_row_witness:
  "(\<forall>r. data (fst (gw_update (write_fault (gateway_of Healthy Hidden))
        (db_now (gateway_of Healthy Hidden))
        (status_patch (gateway_of Healthy Hidden) paid None) ''t1''
        (transactions (world_of [pending_row])))) \<noteq> Some [r]) \<and>
   updateTransactionStatus quiet (gateway_of Healthy Hidden) ''t1'' paid None
     (world_of [pending_row]) =
     (Inl NotSingleRow, world_of [pending_row\<lparr>status := paid, updated_at := 200\<rparr>])"
  using updateTransactionStatus_needs_one_row
    [of "gateway_of Healthy Hidden" paid None "''t1''" "world_of [pending_row]" quiet]
  by (simp add: sample_defs pending_row_def run_defs)

text \<open>
  C2, at a concrete input. One pending row \<^verbatim>\<open>t1\<close> that was never reviewed; the
  gateway serves every request and the client's clock reads 300.
  \<^verbatim>\<open>updateTransactionStatus('t1', 'rejected')\<close>, with no third argument, returns the
  row with status rejected and the review time still null. The same call with an empty
  options object \<^verbatim>\<open>{}\<close> stamps the review time 300.
\<close>

theorem updateTransactionStatus_without_options_leaves_reviewed_at:
  "updateTransactionStatus quiet (gateway_of Healthy Healthy) ''t1'' rejected None
     (world_of [pending_row]) =
     (Inr (pending_row\<lparr>status := rejected, updated_at := 200\<rparr>),
      \<lparr>transactions = [pending_row\<lparr>status := rejected, updated_at := 200\<rparr>],
       bus = \<lparr>listeners = [7],
               calls = [(7, pending_row\<lparr>status := rejected, updated_at := 200\<rparr>)]\<rparr>\<rparr>) \<and>
   reviewed_at (pending_row\<lparr>status := rejected, updated_at := 200\<rparr>) = None \<and>
   client_clock (gateway_of Healthy Healthy) 0 = 300 \<and>
   fst (updateTransactionStatus quiet (gateway_of Healthy Healthy) ''t1'' rejected
     (Some \<lparr>opt_notes = None, opt_reviewed_by = None, opt_reviewed_at = None\<rparr>)
     (world_of [pending_row])) =
     Inr (pending_row\<lparr>status := rejected, reviewed_at := Some 300, updated_at := 200\<rparr>)"
  by (simp add: sample_defs pending_row_def run_defs emitTransaction_def invoke_def)




text \<open>
  C6. For every subscription built on this pattern, whatever happened before the
  returned function is called and whatever happens after it (queries in flight at that
  moment settling, further change notifications and the queries they start), the
  callback has received exactly what it had received when the function was called: it
  is not invoked again.
\<close>

theorem unsubscribed_callback_is_never_invoked:
  "delivered (sub_run f (before @ Unsubscribe # later) subscribe) =
   delivered (sub_run f before subscribe)"
proof -
  have "cancelled (sub_step f Unsubscribe (sub_run f before subscribe))"
    by simp
  from sub_run_cancelled [OF this, of f later] show ?thesis
    by (simp add: sub_run_append)
qed

text \<open>
  C9. A publish reaches the callbacks that were registered when it began, whatever the
  callbacks do to the set meanwhile: one that is not registered at the start is not
  invoked with the payload of this publish even if a callback registers it, and one
  that is registered at the start is invoked even if an earlier callback removes it.
  A callback registered twice is invoked once by a publish.
\<close>

theorem emitTransaction_iterates_over_snapshot:
  "(c \<notin> set (listeners s) \<longrightarrow> (c, tx) \<notin> set (new_calls s (emitTransaction h tx s))) \<and>
   (c \<in> set (listeners s) \<longrightarrow> (c, tx) \<in> set (new_calls s (emitTransaction h tx s))) \<and>
   (distinct (listeners s) \<longrightarrow>
      count_list
        (new_calls (snd (addTransactionListener c (snd (addTransactionListener c s))))
           (emitTransaction h tx
              (snd (addTransactionListener c (snd (addTransactionListener c s))))))
        (c, tx) = 1)"
proof (intro conjI impI)
  assume "c \<notin> set (listeners s)"
  then show "(c, tx) \<notin> set (new_calls s (emitTransaction h tx s))"
    by (auto simp: new_calls_emitTransaction)
next
  assume "c \<in> set (listeners s)"
  then show "(c, tx) \<in> set (new_calls s (emitTransaction h tx s))"
    by (auto simp: new_calls_emitTransaction)
next
  assume d: "distinct (listeners s)"
  let ?s = "snd (addTransactionListener c (snd (addTransactionListener c s)))"
  have l: "listeners ?s = set_add c (listeners s)"
    by (simp add: addTransactionListener_def set_add_idem)
  have "distinct (listeners ?s)" and "c \<in> set (listeners ?s)"
    using d l by (simp_all add: distinct_set_add) (simp add: set_add_def)
  then show "count_list (new_calls ?s (emitTransaction h tx ?s)) (c, tx) = 1"
    by (simp add: new_calls_emitTransaction count_list_map_pair count_list_distinct)
qed

text \<open>
  Listeners 1 and 2; when invoked, 1 registers 3 and removes 2. The publish reaches 1
  and 2 and not 3; afterwards the listeners are 1 and 3. Registering 1 twice on an empty bus:
  one invocation.
\<close>

theorem emitTransaction_iterates_over_snapshot_witness:
  "3 \<notin> set (listeners \<lparr>listeners = [1, 2], calls = ([] :: (nat \<times> string) list)\<rparr>) \<and>
   2 \<in> set (listeners \<lparr>listeners = [1, 2], calls = ([] :: (nat \<times> string) list)\<rparr>) \<and>
   emitTransaction (\<lambda>cb p. if cb = 1 then [AddListener 3, DeleteListener 2] else []) ''tx''
     \<lparr>listeners = [1, 2], calls = []\<rparr> =
     \<lparr>listeners = [1, 3], calls = [(1, ''tx''), (2, ''tx'')]\<rparr> \<and>
   distinct (listeners (empty_bus :: string bus)) \<and>
   emitTransaction (\<lambda>cb p. []) ''tx''
     (snd (addTransactionListener 1 (snd (addTransactionListener 1 empty_bus)))) =
     \<lparr>listeners = [1], calls = [(1, ''tx'')]\<rparr>"
  using emitTransaction_iterates_over_snapshot
    [of 3 "\<lparr>listeners = [1, 2], calls = []\<rparr>" "''tx''"
        "\<lambda>cb p. if cb = 1 then [AddListener 3, DeleteListener 2] else []"]
    emitTransaction_iterates_over_snapshot
    [of 2 "\<lparr>listeners = [1, 2], calls = []\<rparr>" "''tx''"
        "\<lambda>cb p. if cb = 1 then [AddListener 3, DeleteListener 2] else []"]
    emitTransaction_iterates_over_snapshot
    [of 1 "empty_bus" "''tx''" "\<lambda>cb p. []"]
  by (simp add: emitTransaction_def invoke_def set_add_def set_delete_def empty_bus_def
      addTransactionListener_def)

section \<open>Further properties\<close>

text \<open>
  When \<^verbatim>\<open>updateTransactionStatus\<close> is given an options object and the gateway returns
  the one row with the id, the row returned has the new status, and its review time is
  the one the options give if they give one, the reading of the client's clock if they
  give none and the new status is not pending, and the stored one if they give none and
  the new status is pending.
\<close>

theorem updateTransactionStatus_stamps_with_options:
  assumes "write_fault e = Healthy"
      and "filter (\<lambda>r. id' r = i) (transactions w) = [r]"
  shows "\<exists>tx w'.
     updateTransactionStatus h e i st (Some opts) w = (Inr tx, w') \<and>
     status tx = st \<and>
     reviewed_at tx =
       (case opt_reviewed_at opts of
          Some v \<Rightarrow> v
        | None \<Rightarrow> if st = pending then reviewed_at r else Some (client_clock e 0))"
proof -
  have "r \<in> set (filter (\<lambda>r. id' r = i) (transactions w))"
    using assms(2) by simp
  then have "id' r = i" by simp
  then show ?thesis
    using updateTransactionStatus_one_row [OF assms, of h st "Some opts"]
    by (cases "opt_reviewed_at opts")
      (simp_all add: emit_and_return_def write_row_def apply_patch_def status_patch_def)
qed

theorem updateTransactionStatus_stamps_with_options_witness:
  "write_fault (gateway_of Healthy Healthy) = Healthy \<and>
   filter (\<lambda>r. id' r = ''t1'') (transactions (world_of [pending_row])) = [pending_row] \<and>
   fst (updateTransactionStatus quiet (gateway_of Healthy Healthy) ''t1'' paid
     (Some \<lparr>opt_notes = None, opt_reviewed_by = Some (Some ''admin1''),
            opt_reviewed_at = None\<rparr>)
     (world_of [pending_row])) =
     Inr (pending_row\<lparr>status := paid, reviewed_by := Some ''admin1'',
            reviewed_at := Some 300, updated_at := 200\<rparr>)"
  using updateTransactionStatus_stamps_with_options
    [of "gateway_of Healthy Healthy" "''t1''" "world_of [pending_row]" pending_row quiet paid
        "\<lparr>opt_notes = None, opt_reviewed_by = Some (Some ''admin1''),
            opt_reviewed_at = None\<rparr>"]
  by (simp add: sample_defs pending_row_def run_defs)

text \<open>
  The scenario of the specification: user \<^verbatim>\<open>u1\<close> starts offer \<^verbatim>\<open>o1\<close> with amount 5 and
  gets the pending transaction \<^verbatim>\<open>t1\<close>; an admin marks \<^verbatim>\<open>t1\<close> paid, which stamps the
  review time and the reviewer; the user starts the offer again and gets a new pending
  transaction \<^verbatim>\<open>t2\<close>, and the table holds both.
\<close>

theorem end_to_end_scenario:
  "(let (r1, w1) = createOrReuseActiveTransaction quiet
                     ((gateway_of Healthy Healthy)\<lparr>new_id := ''t1'', db_now := 100\<rparr>)
                     ''u1'' ''o1'' (Some ''Old title'') None (Some 5) (world_of []);
        (r2, w2) = updateTransactionStatus quiet (gateway_of Healthy Healthy) ''t1'' paid
                     (Some \<lparr>opt_notes = None, opt_reviewed_by = Some (Some ''admin1''),
                            opt_reviewed_at = None\<rparr>) w1;
        (r3, w3) = createOrReuseActiveTransaction quiet
                     ((gateway_of Healthy Healthy)\<lparr>db_now := 400\<rparr>)
                     ''u1'' ''o1'' (Some ''Old title'') None (Some 5) w2
    in r1 = Inr pending_row \<and>
       r2 = Inr (pending_row\<lparr>status := paid, reviewed_by := Some ''admin1'',
                  reviewed_at := Some 300, updated_at := 200\<rparr>) \<and>
       r3 = Inr (pending_row\<lparr>id' := ''t2'', created_at := 400, updated_at := 400\<rparr>) \<and>
       transactions w3 =
         [pending_row\<lparr>status := paid, reviewed_by := Some ''admin1'',
                  reviewed_at := Some 300, updated_at := 200\<rparr>,
          pending_row\<lparr>id' := ''t2'', created_at := 400, updated_at := 400\<rparr>])"
  by (simp add: sample_defs pending_row_def run_defs)

end
